theory Spec2Isabelle
  imports Main "HOL-Library.Word"
begin

section \<open>JavaScript values used by library.js\<close>

text \<open>
  The plugin is one CommonJS module, \<^verbatim>\<open>library.js\<close>, compiled in strict mode (its first
  statement is the directive \<^verbatim>\<open>'use strict'\<close>). Its functions are \<^verbatim>\<open>async\<close>: a call
  either resolves to a value or rejects with the thrown value. The model writes such a
  call as a pair: the outcome (\<open>Inl\<close> the thrown value, \<open>Inr\<close> the resolved one) and the
  list of effects the call performed on the host, in the order they happened.

  A string is the list of its characters, each \<open>char\<close> one byte of the string's UTF-8
  form. The plugin's own code looks at a string only to see whether it is empty, whether
  it equals another string, and where ASCII characters such as \<open>/\<close> and \<open>.\<close> stand;
  all of that is the same on the bytes as on the code units JavaScript keeps. Lower-casing,
  which depends on the Unicode tables, is left to the runtime (see \<open>host_env\<close>). Numbers
  are mathematical integers; JavaScript computes with doubles, which are exact on integers
  of magnitude below \<open>2 ^ 53\<close>.
\<close>

text \<open>
  A thrown value is an \<^verbatim>\<open>Error\<close> object, of which the code reads the properties
  \<^verbatim>\<open>name\<close> and \<^verbatim>\<open>message\<close>, or any other value, kept as the string that
  \<^verbatim>\<open>String(value)\<close> gives.
\<close>

datatype js_exn = JsError string string | Thrown string

definition mkError :: "string \<Rightarrow> js_exn" where
  "mkError msg = JsError ''Error'' msg"

definition ReferenceError :: "string \<Rightarrow> js_exn" where
  "ReferenceError ident = JsError ''ReferenceError'' (ident @ '' is not defined'')"

definition TypeError :: "string \<Rightarrow> js_exn" where
  "TypeError msg = JsError ''TypeError'' msg"

text \<open>\<^verbatim>\<open>Error.prototype.toString\<close>, which \<^verbatim>\<open>String(err)\<close> calls on an Error object.\<close>

fun js_toString :: "js_exn \<Rightarrow> string" where
  "js_toString (JsError n m) = (if n = [] then m else if m = [] then n else n @ '': '' @ m)"
| "js_toString (Thrown v) = v"

text \<open>
  A property that holds a string or is absent (\<^verbatim>\<open>undefined\<close>). It is truthy when it is
  present and not the empty string.
\<close>

definition truthy :: "string option \<Rightarrow> bool" where
  "truthy v = (case v of None \<Rightarrow> False | Some s \<Rightarrow> s \<noteq> [])"

subsection \<open>parseInt(string, 10)\<close>

text \<open>
  \<^verbatim>\<open>parseInt\<close> converts its argument to a string, skips leading white space, reads an
  optional sign and then the longest run of decimal digits; with no digit the result is
  \<^verbatim>\<open>NaN\<close>, here \<open>None\<close>. White space is the ASCII part of the language's white space.
\<close>

definition is_space :: "char \<Rightarrow> bool" where
  "is_space c = (c \<in> set [CHR 0x09, CHR 0x0A, CHR 0x0B, CHR 0x0C, CHR 0x0D, CHR '' ''])"

definition is_digit :: "char \<Rightarrow> bool" where
  "is_digit c = (let n = (of_char c :: nat) in 48 \<le> n \<and> n \<le> 57)"

definition digit_value :: "char \<Rightarrow> nat" where
  "digit_value c = of_char c - 48"

definition digits_value :: "string \<Rightarrow> nat" where
  "digits_value ds = foldl (\<lambda>acc c. 10 * acc + digit_value c) 0 ds"

definition parseInt10 :: "string \<Rightarrow> int option" where
  "parseInt10 s =
     (let t = dropWhile is_space s;
          neg = (case t of c # _ \<Rightarrow> c = CHR ''-'' | [] \<Rightarrow> False);
          u = (case t of c # r \<Rightarrow> if c = CHR ''-'' \<or> c = CHR ''+'' then r else t | [] \<Rightarrow> t);
          ds = takeWhile is_digit u
      in if ds = [] then None
         else Some ((if neg then - 1 else 1) * int (digits_value ds)))"

subsection \<open>Array.prototype.join\<close>

fun join :: "string \<Rightarrow> string list \<Rightarrow> string" where
  "join sep [] = []"
| "join sep [x] = x"
| "join sep (x # y # ys) = x @ sep @ join sep (y # ys)"

subsection \<open>path.extname\<close>

text \<open>
  Node's \<^verbatim>\<open>path.extname\<close> (POSIX flavour) is a library function, not code of the
  plugin. It walks the path from its last character to its first and keeps five
  variables; \<^verbatim>\<open>-1\<close> in \<^verbatim>\<open>startDot\<close> and \<^verbatim>\<open>end\<close> is \<open>None\<close> here. The
  loop stops (\<^verbatim>\<open>break\<close>) at the first slash that is left of a character other than a
  slash.
\<close>

record ext_scan =
  startDot :: "nat option"
  startPart :: nat
  endIdx :: "nat option"
  matchedSlash :: bool
  preDotState :: int

fun extname_scan :: "string \<Rightarrow> nat \<Rightarrow> ext_scan \<Rightarrow> ext_scan" where
  "extname_scan p 0 s = s"
| "extname_scan p (Suc i) s =
     (if p ! i = CHR ''/'' then
        (if \<not> matchedSlash s then s\<lparr>startPart := i + 1\<rparr> else extname_scan p i s)
      else
        (let s1 = (if endIdx s = None then s\<lparr>endIdx := Some (i + 1), matchedSlash := False\<rparr> else s);
             s2 = (if p ! i = CHR ''.'' then
                     (if startDot s1 = None then s1\<lparr>startDot := Some i\<rparr>
                      else if preDotState s1 \<noteq> 1 then s1\<lparr>preDotState := 1\<rparr>
                      else s1)
                   else if startDot s1 \<noteq> None then s1\<lparr>preDotState := - 1\<rparr>
                   else s1)
         in extname_scan p i s2))"

definition extname_init :: ext_scan where
  "extname_init = \<lparr>startDot = None, startPart = 0, endIdx = None, matchedSlash = True, preDotState = 0\<rparr>"

definition extname :: "string \<Rightarrow> string" where
  "extname p =
     (let s = extname_scan p (length p) extname_init in
      case (startDot s, endIdx s) of
        (Some sd, Some e) \<Rightarrow>
          if preDotState s = 0 \<or> (preDotState s = 1 \<and> sd = e - 1 \<and> sd = startPart s + 1)
          then []
          else take (e - sd) (drop sd p)
      | _ \<Rightarrow> [])"

text \<open>
  \<^verbatim>\<open>path.extname\<close> first validates its argument: anything but a string, such as
  \<^verbatim>\<open>undefined\<close>, throws a \<^verbatim>\<open>TypeError\<close>.
\<close>

definition extname_arg_error :: js_exn where
  "extname_arg_error =
     TypeError (''The '' @ [CHR 0x22] @ ''path'' @ [CHR 0x22] @
                '' argument must be of type string. Received undefined'')"

definition path_extname :: "string option \<Rightarrow> js_exn + string" where
  "path_extname arg = (case arg of None \<Rightarrow> Inl extname_arg_error | Some p \<Rightarrow> Inr (extname p))"

section \<open>The plugin's data\<close>

type_synonym buffer = "8 word list"

text \<open>\<^verbatim>\<open>plugin.settings\<close> (lines 27--36): six strings, empty until configured.\<close>

record settings =
  accessKeyId :: string
  secretAccessKey :: string
  region :: string
  bucket :: string
  uploadPath :: string
  host :: string

text \<open>
  What \<^verbatim>\<open>meta.settings.get('aws-s3-upload')\<close> resolves to: an object on which each of
  the six properties is a string or absent.
\<close>

record stored_settings =
  stored_accessKeyId :: "string option"
  stored_secretAccessKey :: "string option"
  stored_region :: "string option"
  stored_bucket :: "string option"
  stored_uploadPath :: "string option"
  stored_host :: "string option"

text \<open>The argument of \<^verbatim>\<open>reloadSettings\<close>, when there is one: an object read at \<^verbatim>\<open>data.plugin\<close>.\<close>

record reload_data =
  data_plugin :: "string option"

text \<open>
  The file or image of a request. A property is absent when the caller left it out; the
  size, when present, is a number of bytes.
\<close>

record upload_file =
  file_size :: "nat option"
  file_path :: "string option"
  file_name :: "string option"

record upload_image =
  image_size :: "nat option"
  image_url :: "string option"
  image_path :: "string option"
  image_originalname :: "string option"
  image_name :: "string option"

record file_data =
  data_file :: "upload_file option"
  file_folder :: "string option"

record image_data =
  data_image :: "upload_image option"
  image_folder :: "string option"

record upload_result =
  result_name :: string
  result_url :: string

record s3_client =
  client_region :: string
  client_accessKeyId :: string
  client_secretAccessKey :: string

record put_params =
  Bucket :: string
  Key :: string
  Body :: buffer
  ContentLength :: nat
  ContentType :: "string option"

text \<open>
  The effects of a call on the host: a line written with \<^verbatim>\<open>winston.error\<close>, a file read
  with \<^verbatim>\<open>readFile\<close>, a \<^verbatim>\<open>PutObjectCommand\<close> sent through an S3 client.
\<close>

datatype event = WinstonError string | ReadFile string | S3Send s3_client put_params

type_synonym 'a outcome = "(js_exn + 'a) \<times> event list"

text \<open>
  The host and the libraries, as one call of the plugin sees them:
  \<^verbatim>\<open>meta.config.maximumFileSize\<close> (as the string that \<^verbatim>\<open>parseInt\<close> and the template
  literals make of it), \<^verbatim>\<open>fileModule.allowedExtensions()\<close>, the stored settings,
  what reading a file gives, the token \<^verbatim>\<open>uuid()\<close> returns, \<^verbatim>\<open>mime.getType\<close>, and
  the answer of the storage service to a put (\<open>None\<close> when it succeeds, the thrown value
  otherwise). The last field is \<^verbatim>\<open>String.prototype.toLowerCase\<close> of the language
  runtime, whose Unicode case tables are no part of the plugin.
\<close>

record host_env =
  maximumFileSize :: string
  allowedExtensions :: "string list"
  settings_get :: stored_settings
  readFile :: "string \<Rightarrow> js_exn + buffer"
  uuid :: string
  mime_getType :: "string \<Rightarrow> string option"
  s3_send :: "s3_client \<Rightarrow> put_params \<Rightarrow> js_exn option"
  toLowerCase :: "string \<Rightarrow> string"

section \<open>The plugin's functions\<close>

definition pluginId :: string where
  "pluginId = ''nodebb-plugin-aws-s3-upload''"

subsection \<open>reloadSettings (lines 61--86)\<close>

text \<open>
  The test \<^verbatim>\<open>settings.x && settings.x.length\<close> holds of a string that is present and
  not empty.
\<close>

definition present :: "string option \<Rightarrow> string option" where
  "present v = (case v of None \<Rightarrow> None | Some s \<Rightarrow> if s \<noteq> [] then Some s else None)"

text \<open>Line 62: \<^verbatim>\<open>data && data.plugin !== 'aws-s3-upload'\<close>.\<close>

definition forOtherPlugin :: "reload_data option \<Rightarrow> bool" where
  "forOtherPlugin data =
     (case data of None \<Rightarrow> False | Some d \<Rightarrow> data_plugin d \<noteq> Some ''aws-s3-upload'')"

definition reloadSettings :: "host_env \<Rightarrow> reload_data option \<Rightarrow> settings \<Rightarrow> settings" where
  "reloadSettings env data st =
     (if forOtherPlugin data then st
      else
        (let stored = settings_get env;
             st1 = (case present (stored_accessKeyId stored) of
                      Some v \<Rightarrow> st\<lparr>accessKeyId := v\<rparr> | None \<Rightarrow> st);
             st2 = (case present (stored_secretAccessKey stored) of
                      Some v \<Rightarrow> st1\<lparr>secretAccessKey := v\<rparr> | None \<Rightarrow> st1);
             st3 = (case present (stored_region stored) of
                      Some v \<Rightarrow> st2\<lparr>region := v\<rparr> | None \<Rightarrow> st2);
             st4 = (case present (stored_bucket stored) of
                      Some v \<Rightarrow> st3\<lparr>bucket := v\<rparr> | None \<Rightarrow> st3);
             st5 = (case present (stored_uploadPath stored) of
                      Some v \<Rightarrow> st4\<lparr>uploadPath := v\<rparr> | None \<Rightarrow> st4);
             st6 = (case present (stored_host stored) of
                      Some v \<Rightarrow> st5\<lparr>host := v\<rparr> | None \<Rightarrow> st5)
         in st6))"

subsection \<open>isExtensionAllowed (lines 265--271)\<close>

definition isExtensionAllowed ::
  "host_env \<Rightarrow> string option \<Rightarrow> string list \<Rightarrow> js_exn + bool" where
  "isExtensionAllowed env filePath allowed =
     (case path_extname filePath of
        Inl e \<Rightarrow> Inl e
      | Inr ext \<Rightarrow>
          (let extension = toLowerCase env ext in
           Inr (\<not> (length allowed > 0 \<and>
                    (extension = [] \<or> extension = ''.'' \<or> extension \<notin> set allowed)))))"

subsection \<open>createError (lines 255--263) and constructS3 (lines 245--253)\<close>

text \<open>
  \<^verbatim>\<open>createError\<close> rewrites the message of an Error object in place, or makes a new
  Error of any other value, logs the message and returns the Error.
\<close>

fun createError :: "js_exn \<Rightarrow> js_exn \<times> event list" where
  "createError (JsError n m) =
     (JsError n (pluginId @ '' :: '' @ m), [WinstonError (pluginId @ '' :: '' @ m)])"
| "createError (Thrown v) =
     (JsError ''Error'' (pluginId @ '' :: '' @ v), [WinstonError (pluginId @ '' :: '' @ v)])"

definition constructS3 :: "settings \<Rightarrow> s3_client" where
  "constructS3 st =
     \<lparr>client_region = region st, client_accessKeyId = accessKeyId st,
      client_secretAccessKey = secretAccessKey st\<rparr>"

subsection \<open>uploadToS3 (lines 164--211)\<close>

text \<open>
  Lines 165--175: the path prefix. \<^verbatim>\<open>/\/$/\<close> matches a string that ends in a slash.
\<close>

definition s3Path :: "settings \<Rightarrow> string" where
  "s3Path st =
     (if uploadPath st \<noteq> [] then
        (if last (uploadPath st) \<noteq> CHR ''/'' then uploadPath st @ ''/'' else uploadPath st)
      else ''/'')"

text \<open>Line 177: \<^verbatim>\<open>replace(/^\//, '')\<close> removes one slash at the start, if there is one.\<close>

definition stripLeadingSlash :: "string \<Rightarrow> string" where
  "stripLeadingSlash s = (case s of [] \<Rightarrow> [] | c # r \<Rightarrow> if c = CHR ''/'' then r else s)"

text \<open>Lines 177--185: the object key, for the token that \<^verbatim>\<open>uuid()\<close> returned.\<close>

definition s3Key :: "settings \<Rightarrow> string option \<Rightarrow> string \<Rightarrow> string \<Rightarrow> string" where
  "s3Key st folder token filename =
     (let s3KeyPath = stripLeadingSlash (s3Path st);
          s3KeyPath' = (case present folder of
                          Some f \<Rightarrow> s3KeyPath @ f @ ''/''
                        | None \<Rightarrow> s3KeyPath)
      in s3KeyPath' @ token @ extname filename)"

text \<open>Lines 196--202: the host part of the returned URL.\<close>

definition startsWith :: "string \<Rightarrow> string \<Rightarrow> bool" where
  "startsWith s pre = (take (length pre) s = pre)"

definition urlHost :: "settings \<Rightarrow> string \<Rightarrow> string" where
  "urlHost st bucketName =
     (if host st \<noteq> [] then
        (if \<not> startsWith (host st) ''http'' then ''http://'' @ host st else host st)
      else ''https://'' @ bucketName)"

text \<open>
  The whole function. \<^verbatim>\<open>path.extname(filename)\<close> is evaluated while the parameters are
  built, outside the \<^verbatim>\<open>try\<close>, so its TypeError is not caught. Inside the \<^verbatim>\<open>try\<close>
  only the put can throw; the handler throws \<^verbatim>\<open>new Error(plugin.createError(err))\<close>,
  and the constructor turns its argument, an Error object, into a string.
\<close>

definition uploadToS3 ::
  "host_env \<Rightarrow> settings \<Rightarrow> string option \<Rightarrow> string option \<Rightarrow> buffer \<Rightarrow> upload_result outcome" where
  "uploadToS3 env st filename folder buffer =
     (case filename of
        None \<Rightarrow> (Inl extname_arg_error, [])
      | Some fname \<Rightarrow>
          (let params = \<lparr>Bucket = bucket st, Key = s3Key st folder (uuid env) fname,
                         Body = buffer, ContentLength = length buffer,
                         ContentType = mime_getType env fname\<rparr>;
               s3Client = constructS3 st
           in case s3_send env s3Client params of
                None \<Rightarrow>
                  (Inr \<lparr>result_name = fname,
                        result_url = urlHost st (Bucket params) @ ''/'' @ Key params\<rparr>,
                   [S3Send s3Client params])
              | Some err \<Rightarrow>
                  (case createError err of
                     (wrapped, logged) \<Rightarrow>
                       (Inl (mkError (js_toString wrapped)), S3Send s3Client params # logged))))"

subsection \<open>The size check (lines 97--100 and 150--153)\<close>

text \<open>
  Both entry points compare the size with \<^verbatim>\<open>parseInt(meta.config.maximumFileSize, 10) * 1024\<close>.
  A comparison in which either side is \<^verbatim>\<open>NaN\<close> is false: so it is for a size that is
  absent (\<^verbatim>\<open>undefined\<close> converts to \<^verbatim>\<open>NaN\<close>) and for a limit without digits.
\<close>

definition exceedsMaximum :: "host_env \<Rightarrow> nat option \<Rightarrow> bool" where
  "exceedsMaximum env size_prop =
     (case size_prop of
        None \<Rightarrow> False
      | Some sz \<Rightarrow>
          (case parseInt10 (maximumFileSize env) of
             None \<Rightarrow> False
           | Some m \<Rightarrow> int sz > m * 1024))"

definition fileTooBig :: "host_env \<Rightarrow> 'a outcome" where
  "fileTooBig env =
     (Inl (mkError (''[[error:file-too-big, '' @ maximumFileSize env @ '']]'')),
      [WinstonError (''error:file-too-big, '' @ maximumFileSize env)])"

definition invalidFileType :: "string list \<Rightarrow> js_exn" where
  "invalidFileType allowed =
     mkError (''[[error:invalid-file-type, '' @ join ''&#44; '' allowed @ '']]'')"

subsection \<open>uploadFile (lines 138--162)\<close>

definition uploadFile :: "host_env \<Rightarrow> settings \<Rightarrow> file_data \<Rightarrow> upload_result outcome" where
  "uploadFile env st data =
     (case data_file data of
        None \<Rightarrow> (Inl (mkError ''invalid file''), [])
      | Some f \<Rightarrow>
          (case present (file_path f) of
             None \<Rightarrow> (Inl (mkError ''invalid file path''), [])
           | Some p \<Rightarrow>
               if exceedsMaximum env (file_size f) then fileTooBig env
               else
                 (let allowed = allowedExtensions env in
                  case isExtensionAllowed env (Some p) allowed of
                    Inl e \<Rightarrow> (Inl e, [])
                  | Inr ok \<Rightarrow>
                      if \<not> ok then (Inl (invalidFileType allowed), [])
                      else
                        (case readFile env p of
                           Inl e \<Rightarrow> (Inl e, [ReadFile p])
                         | Inr buffer \<Rightarrow>
                             (case uploadToS3 env st (file_name f) (file_folder data) buffer of
                                (r, evs) \<Rightarrow> (r, ReadFile p # evs))))))"

subsection \<open>uploadImage (lines 88--136)\<close>

text \<open>
  Three identifiers that the function reads or writes are bound nowhere: the module
  declares \<^verbatim>\<open>S3\<close>, \<^verbatim>\<open>uuid\<close>, \<^verbatim>\<open>fs\<close>, \<^verbatim>\<open>path\<close>, \<^verbatim>\<open>promisify\<close>,
  \<^verbatim>\<open>sharp\<close>, \<^verbatim>\<open>winston\<close>, \<^verbatim>\<open>nconf\<close>, \<^verbatim>\<open>meta\<close>, \<^verbatim>\<open>routeHelpers\<close>,
  \<^verbatim>\<open>fileModule\<close>, \<^verbatim>\<open>readFile\<close>, \<^verbatim>\<open>constants\<close> and \<^verbatim>\<open>plugin\<close>, the function
  declares \<^verbatim>\<open>data\<close>, \<^verbatim>\<open>image\<close>, \<^verbatim>\<open>folder\<close>, \<^verbatim>\<open>type\<close>, \<^verbatim>\<open>allowed\<close>,
  \<^verbatim>\<open>nameToCheck\<close> and \<^verbatim>\<open>buffer\<close>, and Node has no global of these names.
  \<^item> Line 93 calls \<^verbatim>\<open>callback\<close>: resolving the callee throws a ReferenceError before
    the argument is evaluated.
  \<^item> Line 118 assigns to \<^verbatim>\<open>name\<close>: in strict mode, assigning to an unresolvable
    reference throws a ReferenceError. Line 120 is not reached then.
  \<^item> Lines 130--133 pass \<^verbatim>\<open>imageDimension\<close>: evaluating the argument throws a
    ReferenceError before \<^verbatim>\<open>downloadAndResizeImage\<close> is entered. Line 134, which
    reads \<^verbatim>\<open>filename\<close>, is not reached.
\<close>

definition uploadImage :: "host_env \<Rightarrow> settings \<Rightarrow> image_data \<Rightarrow> upload_result outcome" where
  "uploadImage env st data =
     (case data_image data of
        None \<Rightarrow> (Inl (ReferenceError ''callback''), [WinstonError ''invalid image''])
      | Some img \<Rightarrow>
          if exceedsMaximum env (image_size img) then fileTooBig env
          else
            (let allowed = allowedExtensions env in
             if \<not> truthy (image_url img) then
               (case present (image_path img) of
                  None \<Rightarrow> (Inl (mkError ''Invalid image path''), [])
                | Some p \<Rightarrow>
                    (case (if truthy (image_originalname img)
                           then Inr (image_originalname img)
                           else Inl (ReferenceError ''name'')) of
                       Inl e \<Rightarrow> (Inl e, [])
                     | Inr nameToCheck \<Rightarrow>
                         (case isExtensionAllowed env nameToCheck allowed of
                            Inl e \<Rightarrow> (Inl e, [])
                          | Inr ok \<Rightarrow>
                              if \<not> ok then (Inl (invalidFileType allowed), [])
                              else
                                (case readFile env p of
                                   Inl e \<Rightarrow> (Inl e, [ReadFile p])
                                 | Inr buffer \<Rightarrow>
                                     (case uploadToS3 env st (image_name img) (image_folder data) buffer of
                                        (r, evs) \<Rightarrow> (r, ReadFile p # evs))))))
             else
               (case isExtensionAllowed env (image_url img) allowed of
                  Inl e \<Rightarrow> (Inl e, [])
                | Inr ok \<Rightarrow>
                    if \<not> ok then (Inl (invalidFileType allowed), [])
                    else (Inl (ReferenceError ''imageDimension''), []))))"

subsection \<open>downloadAndResizeImage (lines 213--243)\<close>

text \<open>
  The function starts by building a promise whose executor calls \<^verbatim>\<open>https.get\<close>. The
  module never requires \<^verbatim>\<open>https\<close> (lines 3--14 require the S3 client, uuid, fs, path,
  util, sharp and five parts of the host), so the executor throws a ReferenceError, the
  promise rejects with it and the \<^verbatim>\<open>await\<close> throws it: no request is made, and the
  status test, the format detection and the resize that follow are not reached.
\<close>

definition downloadAndResizeImage :: "string \<Rightarrow> nat \<Rightarrow> buffer outcome" where
  "downloadAndResizeImage url dimension = (Inl (ReferenceError ''https''), [])"

section \<open>Sample inputs\<close>

text \<open>
  A host with a limit of 2048 KB and the allow-list \<open>.png\<close>, \<open>.jpg\<close>, whose stored
  settings hold a region and an empty bucket name, whose files read as three bytes and
  whose storage accepts every put; and the settings of a configured plugin. The sample
  strings hold ASCII characters only, and on those the runtime's lower-casing turns the
  letters \<open>A\<close> to \<open>Z\<close> into \<open>a\<close> to \<open>z\<close> and keeps the rest.
\<close>

definition ascii_lower_char :: "char \<Rightarrow> char" where
  "ascii_lower_char c =
     (let n = (of_char c :: nat) in if 65 \<le> n \<and> n \<le> 90 then char_of (n + 32) else c)"

definition ascii_lower :: "string \<Rightarrow> string" where
  "ascii_lower s = map ascii_lower_char s"

definition sample_env :: host_env where
  "sample_env =
     \<lparr>maximumFileSize = ''2048'',
      allowedExtensions = [''.png'', ''.jpg''],
      settings_get =
        \<lparr>stored_accessKeyId = None, stored_secretAccessKey = None,
         stored_region = Some ''us-east-1'', stored_bucket = Some [],
         stored_uploadPath = None, stored_host = None\<rparr>,
      readFile = (\<lambda>p. Inr [1, 2, 3]),
      uuid = ''123e4567-e89b-42d3-a456-426614174000'',
      mime_getType = (\<lambda>f. Some ''image/png''),
      s3_send = (\<lambda>c ps. None),
      toLowerCase = ascii_lower\<rparr>"

definition sample_settings :: settings where
  "sample_settings =
     \<lparr>accessKeyId = ''AKIA'', secretAccessKey = ''secret'', region = ''eu-west-1'',
      bucket = ''assets'', uploadPath = ''/forum'', host = []\<rparr>"

definition big_file :: upload_file where
  "big_file = \<lparr>file_size = Some 3000000, file_path = Some ''/tmp/video.png'', file_name = Some ''video.png''\<rparr>"

definition small_image :: upload_image where
  "small_image =
     \<lparr>image_size = Some 500, image_url = None, image_path = Some ''/tmp/upload_1'',
      image_originalname = Some ''photo.png'', image_name = Some ''photo.png''\<rparr>"

definition remote_image :: upload_image where
  "remote_image =
     \<lparr>image_size = Some 500, image_url = Some ''https://example.com/a/photo.png'', image_path = None,
      image_originalname = None, image_name = Some ''photo.png''\<rparr>"

definition unnamed_image :: upload_image where
  "unnamed_image =
     \<lparr>image_size = Some 500, image_url = None, image_path = Some ''/tmp/photo.png'',
      image_originalname = None, image_name = Some ''photo.png''\<rparr>"

section \<open>Notions used to state the properties\<close>

text \<open>The effects that read a file or call the storage service.\<close>

fun is_io :: "event \<Rightarrow> bool" where
  "is_io (WinstonError m) = False"
| "is_io (ReadFile p) = True"
| "is_io (S3Send c ps) = True"

text \<open>The keys of the objects that a call put in the bucket.\<close>

fun sent_keys :: "event list \<Rightarrow> string list" where
  "sent_keys [] = []"
| "sent_keys (S3Send c ps # evs) = Key ps # sent_keys evs"
| "sent_keys (ev # evs) = sent_keys evs"

text \<open>
  A host override that carries a scheme, in the sense of RFC 3986: a letter, then letters,
  digits, \<open>+\<close>, \<open>-\<close> or \<open>.\<close>, then \<open>://\<close>. This is the notion of the specification; the
  code does not compute it.
\<close>

definition is_alpha :: "char \<Rightarrow> bool" where
  "is_alpha c = (let n = (of_char c :: nat) in (65 \<le> n \<and> n \<le> 90) \<or> (97 \<le> n \<and> n \<le> 122))"

definition scheme_char :: "char \<Rightarrow> bool" where
  "scheme_char c = (is_alpha c \<or> is_digit c \<or> c \<in> set ''+-.'')"

definition has_scheme :: "string \<Rightarrow> bool" where
  "has_scheme h =
     (let s = takeWhile (\<lambda>c. c \<noteq> CHR '':'') h;
          r = dropWhile (\<lambda>c. c \<noteq> CHR '':'') h
      in (case s of [] \<Rightarrow> False | c # cs \<Rightarrow> is_alpha c \<and> list_all scheme_char cs) \<and>
         startsWith r ''://'')"

text \<open>
  The last dot of a string with the text after it; nothing when the string has no dot.
\<close>

fun from_last_dot :: "string \<Rightarrow> string" where
  "from_last_dot [] = []"
| "from_last_dot (c # t) =
     (if CHR ''.'' \<in> set t then from_last_dot t
      else if c = CHR ''.'' then c # t
      else [])"

text \<open>
  The last component of a path: the text after its last slash, the slashes at the end of
  the path set aside.
\<close>

definition last_component :: "string \<Rightarrow> string" where
  "last_component p =
     rev (takeWhile (\<lambda>c. c \<noteq> CHR ''/'') (dropWhile (\<lambda>c. c = CHR ''/'') (rev p)))"

text \<open>
  The extension of a path, said without the loop: the last dot of the last component with
  the text after it; nothing when the component has no dot, when its only dot is its
  first character (a dotfile), or when the component is \<open>..\<close>.
\<close>

definition extension_of :: "string \<Rightarrow> string" where
  "extension_of p =
     (let b = last_component p; e = from_last_dot b
      in if e = b \<or> b = ''..'' then [] else e)"

text \<open>
  The extension check read on the whole path, with the extension taken to be the last dot
  of the path and the text after it. The dot belongs to the extension: the entries of the
  allow-list carry it, and an extension that is the bare dot has nothing else.
\<close>

definition passes_on_last_dot :: "host_env \<Rightarrow> string \<Rightarrow> string list \<Rightarrow> bool" where
  "passes_on_last_dot env p A =
     (A = [] \<or>
      (toLowerCase env (from_last_dot p) \<noteq> [] \<and> toLowerCase env (from_last_dot p) \<noteq> ''.'' \<and>
       toLowerCase env (from_last_dot p) \<in> set A))"

text \<open>
  One turn of the loop of \<^verbatim>\<open>path.extname\<close> on a character that is no slash, and the
  state after the loop has read a run of such characters that starts at position \<open>i\<close>.
\<close>

definition ext_step :: "nat \<Rightarrow> char \<Rightarrow> ext_scan \<Rightarrow> ext_scan" where
  "ext_step i c s =
     (let s1 = (if endIdx s = None then s\<lparr>endIdx := Some (i + 1), matchedSlash := False\<rparr> else s);
          s2 = (if c = CHR ''.'' then
                  (if startDot s1 = None then s1\<lparr>startDot := Some i\<rparr>
                   else if preDotState s1 \<noteq> 1 then s1\<lparr>preDotState := 1\<rparr>
                   else s1)
                else if startDot s1 \<noteq> None then s1\<lparr>preDotState := - 1\<rparr>
                else s1)
      in s2)"

fun scan_run :: "nat \<Rightarrow> string \<Rightarrow> ext_scan" where
  "scan_run i [] = extname_init"
| "scan_run i (c # t) = ext_step i c (scan_run (Suc i) t)"

section \<open>The extension that path.extname returns\<close>

text \<open>
  The loop skips the slashes at the end of the path, reads the last component from right
  to left and stops at the slash before it.
\<close>

lemma scan_slashes:
  "matchedSlash s \<Longrightarrow> m \<le> n \<Longrightarrow> (\<forall>k. m \<le> k \<and> k < n \<longrightarrow> p ! k = CHR ''/'')
     \<Longrightarrow> extname_scan p n s = extname_scan p m s"
proof (induction n arbitrary: s)
  case 0
  then show ?case by simp
next
  case (Suc n)
  show ?case
  proof (cases "m = Suc n")
    case True
    then show ?thesis by simp
  next
    case False
    with Suc.prems have "m \<le> n" "p ! n = CHR ''/''" by auto
    moreover have "\<forall>k. m \<le> k \<and> k < n \<longrightarrow> p ! k = CHR ''/''" using Suc.prems by auto
    ultimately show ?thesis using Suc.IH[of s] Suc.prems(1) by simp
  qed
qed

lemma scan_one:
  "p ! i \<noteq> CHR ''/'' \<Longrightarrow> extname_scan p (Suc i) s = extname_scan p i (ext_step i (p ! i) s)"
  by (simp add: ext_step_def Let_def)

lemma scan_segment:
  "p = x @ t @ y \<Longrightarrow> CHR ''/'' \<notin> set t
     \<Longrightarrow> extname_scan p (length x + length t) extname_init = extname_scan p (length x) (scan_run (length x) t)"
proof (induction t arbitrary: x)
  case Nil
  then show ?case by simp
next
  case (Cons c t)
  have p: "p = (x @ [c]) @ t @ y" using Cons.prems by simp
  have no: "CHR ''/'' \<notin> set t" and c: "c \<noteq> CHR ''/''" using Cons.prems by auto
  have "extname_scan p (length (x @ [c]) + length t) extname_init =
        extname_scan p (length (x @ [c])) (scan_run (length (x @ [c])) t)"
    by (rule Cons.IH[OF p no])
  then have 1: "extname_scan p (length x + length (c # t)) extname_init =
        extname_scan p (Suc (length x)) (scan_run (Suc (length x)) t)"
    by (simp del: extname_scan.simps)
  have nth: "p ! length x = c" using Cons.prems by (simp add: nth_append)
  have 2: "extname_scan p (Suc (length x)) (scan_run (Suc (length x)) t) =
        extname_scan p (length x) (ext_step (length x) c (scan_run (Suc (length x)) t))"
    using scan_one[of p "length x" "scan_run (Suc (length x)) t"] nth c by simp
  show ?case unfolding 1 2 by simp
qed

text \<open>The state after the last component, in closed form.\<close>

lemma from_last_dot_length: "length (from_last_dot b) \<le> length b"
  by (induction b) auto

lemma from_last_dot_empty: "(from_last_dot b = []) = (CHR ''.'' \<notin> set b)"
  by (induction b) auto

lemma from_last_dot_suffix: "from_last_dot b = drop (length b - length (from_last_dot b)) b"
proof (induction b)
  case Nil
  then show ?case by simp
next
  case (Cons c t)
  show ?case
  proof (cases "CHR ''.'' \<in> set t")
    case True
    have "length (from_last_dot t) \<le> length t" by (rule from_last_dot_length)
    then have "Suc (length t) - length (from_last_dot t) = Suc (length t - length (from_last_dot t))"
      by simp
    with True Cons show ?thesis by simp
  next
    case False
    then show ?thesis by simp
  qed
qed

lemma scan_run_closed:
  "b \<noteq> [] \<Longrightarrow>
   scan_run i b =
     \<lparr>startDot = (if CHR ''.'' \<in> set b then Some (i + length b - length (from_last_dot b)) else None),
      startPart = 0,
      endIdx = Some (i + length b),
      matchedSlash = False,
      preDotState = (if CHR ''.'' \<notin> set (tl b) then 0 else if hd b = CHR ''.'' then 1 else - 1)\<rparr>"
proof (induction b arbitrary: i)
  case Nil
  then show ?case by simp
next
  case (Cons c t)
  show ?case
  proof (cases "t = []")
    case True
    then show ?thesis by (simp add: ext_step_def extname_init_def)
  next
    case False
    have len: "length (from_last_dot t) \<le> length t" by (rule from_last_dot_length)
    have tl: "CHR ''.'' \<in> set (tl t) \<longrightarrow> CHR ''.'' \<in> set t"
      by (cases t) auto
    show ?thesis
      using Cons.IH[OF False, of "Suc i"] len tl
      by (simp add: ext_step_def Let_def from_last_dot_empty)
  qed
qed

lemma from_last_dot_whole:
  "CHR ''.'' \<in> set b \<Longrightarrow> (CHR ''.'' \<notin> set (tl b)) = (from_last_dot b = b)"
proof (cases b)
  case Nil
  then show ?thesis by simp
next
  case (Cons c t)
  assume dot: "CHR ''.'' \<in> set b"
  show ?thesis
  proof (cases "CHR ''.'' \<in> set t")
    case True
    have "length (from_last_dot t) \<le> length t" by (rule from_last_dot_length)
    then have "from_last_dot t \<noteq> c # t" by auto
    with True Cons show ?thesis by simp
  next
    case False
    with dot Cons show ?thesis by auto
  qed
qed

lemma dot_dot:
  assumes "CHR ''.'' \<in> set b"
  shows "(CHR ''.'' \<in> set (tl b) \<and> hd b = CHR ''.'' \<and> length (from_last_dot b) = 1 \<and>
          length b - length (from_last_dot b) = 1) = (b = ''..'')"
proof
  assume r: "b = ''..''"
  then show "CHR ''.'' \<in> set (tl b) \<and> hd b = CHR ''.'' \<and> length (from_last_dot b) = 1 \<and>
          length b - length (from_last_dot b) = 1"
    by simp
next
  assume l: "CHR ''.'' \<in> set (tl b) \<and> hd b = CHR ''.'' \<and> length (from_last_dot b) = 1 \<and>
          length b - length (from_last_dot b) = 1"
  then have "length b = Suc (Suc 0)" by linarith
  then obtain x y where b: "b = [x, y]"
    by (auto simp: length_Suc_conv)
  with l show "b = ''..''" by simp
qed

lemma path_parts:
  "\<exists>pre b sl. p = pre @ b @ sl \<and> (\<forall>c\<in>set sl. c = CHR ''/'') \<and>
     CHR ''/'' \<notin> set b \<and> (pre = [] \<or> last pre = CHR ''/'') \<and> (b = [] \<longrightarrow> pre = []) \<and>
     last_component p = b"
proof -
  define R where "R = dropWhile (\<lambda>c. c = CHR ''/'') (rev p)"
  define S where "S = takeWhile (\<lambda>c. c = CHR ''/'') (rev p)"
  define B where "B = takeWhile (\<lambda>c. c \<noteq> CHR ''/'') R"
  define P where "P = dropWhile (\<lambda>c. c \<noteq> CHR ''/'') R"
  have "rev p = S @ B @ P"
    by (simp add: S_def B_def P_def R_def)
  then have "rev (rev p) = rev (S @ B @ P)" by simp
  then have 1: "p = rev P @ rev B @ rev S" by simp
  have 2: "\<forall>c\<in>set (rev S). c = CHR ''/''"
    by (auto simp: S_def dest: set_takeWhileD)
  have 3: "CHR ''/'' \<notin> set (rev B)"
    by (auto simp: B_def dest: set_takeWhileD)
  have 4: "rev P = [] \<or> last (rev P) = CHR ''/''"
  proof (cases "P = []")
    case True
    then show ?thesis by simp
  next
    case False
    then have "\<not> (hd P \<noteq> CHR ''/'')"
      unfolding P_def by (rule hd_dropWhile)
    with False show ?thesis by (simp add: last_rev)
  qed
  have 5: "rev B = [] \<longrightarrow> rev P = []"
  proof
    assume "rev B = []"
    then have Bn: "B = []" by simp
    have "R = []"
    proof (rule ccontr)
      assume ne: "R \<noteq> []"
      then have "\<not> (hd R = CHR ''/'')"
        unfolding R_def by (rule hd_dropWhile)
      with ne have "B \<noteq> []"
        unfolding B_def by (cases R) auto
      with Bn show False by simp
    qed
    then show "rev P = []" by (simp add: P_def)
  qed
  have 6: "last_component p = rev B"
    by (simp add: last_component_def B_def R_def)
  from 1 2 3 4 5 6 show ?thesis by blast
qed

lemma nth_tail: "length x \<le> k \<Longrightarrow> k < length (x @ y) \<Longrightarrow> (x @ y) ! k \<in> set y"
  by (simp add: nth_append)

lemma slice_suffix:
  assumes "e = drop n b"
  shows "take (length e) (drop (length x + n) (x @ b @ y)) = e"
proof -
  have "drop (length x + n) (x @ b @ y) = drop n (b @ y)" by simp
  also have "\<dots> = drop n b @ drop (n - length b) y" by simp
  finally have "drop (length x + n) (x @ b @ y) = e @ drop (n - length b) y"
    using assms by simp
  then show ?thesis by simp
qed

lemma extname_parts:
  assumes sl: "\<forall>c\<in>set sl. c = CHR ''/''" and nb: "CHR ''/'' \<notin> set b"
    and pre: "pre = [] \<or> last pre = CHR ''/''" and bpre: "b = [] \<longrightarrow> pre = []"
  shows "extname (pre @ b @ sl) = (if from_last_dot b = b \<or> b = ''..'' then [] else from_last_dot b)"
proof -
  let ?p = "pre @ b @ sl"
  have tail: "\<forall>k. length pre + length b \<le> k \<and> k < length ?p \<longrightarrow> ?p ! k = CHR ''/''"
  proof (intro allI impI)
    fix k
    assume k: "length pre + length b \<le> k \<and> k < length ?p"
    then have "length (pre @ b) \<le> k" "k < length ((pre @ b) @ sl)"
      by simp_all
    then have "((pre @ b) @ sl) ! k \<in> set sl" by (rule nth_tail)
    with sl show "?p ! k = CHR ''/''" by simp
  qed
  have "matchedSlash extname_init" by (simp add: extname_init_def)
  moreover have "length pre + length b \<le> length ?p" by simp
  ultimately
  have 1: "extname_scan ?p (length ?p) extname_init = extname_scan ?p (length pre + length b) extname_init"
    using tail by (rule scan_slashes)
  show ?thesis
  proof (cases "b = []")
    case True
    with bpre have "pre = []" by simp
    with True 1 have "extname_scan ?p (length ?p) extname_init = extname_init" by simp
    then have "extname ?p = []" by (simp add: extname_def extname_init_def)
    with True show ?thesis by simp
  next
    case False
    define F where "F = (scan_run (length pre) b)\<lparr>startPart := length pre\<rparr>"
    have 2: "extname_scan ?p (length pre + length b) extname_init =
             extname_scan ?p (length pre) (scan_run (length pre) b)"
      using refl nb by (rule scan_segment)
    have ms: "\<not> matchedSlash (scan_run (length pre) b)"
      by (simp add: scan_run_closed[OF False])
    have 3: "extname_scan ?p (length pre) (scan_run (length pre) b) = F"
    proof (cases pre rule: rev_cases)
      case Nil
      then show ?thesis by (simp add: F_def scan_run_closed[OF False])
    next
      case (snoc xs x)
      with pre have x: "x = CHR ''/''" by simp
      have nth: "?p ! length xs = CHR ''/''" using snoc x by (simp add: nth_append)
      have "extname_scan ?p (Suc (length xs)) (scan_run (length pre) b) =
            (scan_run (length pre) b)\<lparr>startPart := length xs + 1\<rparr>"
        using nth ms by simp
      then show ?thesis using snoc by (simp add: F_def del: extname_scan.simps)
    qed
    have run: "extname_scan ?p (length ?p) extname_init = F"
      using 1 2 3 by simp
    have Fc: "F = \<lparr>startDot = (if CHR ''.'' \<in> set b
                     then Some (length pre + length b - length (from_last_dot b)) else None),
      startPart = length pre,
      endIdx = Some (length pre + length b),
      matchedSlash = False,
      preDotState = (if CHR ''.'' \<notin> set (tl b) then 0 else if hd b = CHR ''.'' then 1 else - 1)\<rparr>"
      by (simp add: F_def scan_run_closed[OF False])
    show ?thesis
    proof (cases "CHR ''.'' \<in> set b")
      case nodot: False
      then have e: "from_last_dot b = []" by (simp add: from_last_dot_empty)
      have "extname ?p = []" using nodot unfolding extname_def run by (simp add: Fc)
      with e show ?thesis by simp
    next
      case dot: True
      define e where "e = from_last_dot b"
      have le: "length e \<le> length b" unfolding e_def by (rule from_last_dot_length)
      have ne: "e \<noteq> []" using dot by (simp add: e_def from_last_dot_empty)
      have suf: "e = drop (length b - length e) b"
        unfolding e_def by (rule from_last_dot_suffix)
      have "length pre + length b - length e = length pre + (length b - length e)"
        using le by simp
      moreover have "take (length e) (drop (length pre + (length b - length e)) ?p) = e"
        using suf by (rule slice_suffix)
      ultimately have slice: "take (length e) (drop (length pre + length b - length e) ?p) = e"
        by (simp only:)
      have whole: "(CHR ''.'' \<notin> set (tl b)) = (e = b)"
        unfolding e_def using dot by (rule from_last_dot_whole)
      have dd: "(CHR ''.'' \<in> set (tl b) \<and> hd b = CHR ''.'' \<and> length e = 1 \<and>
          length b - length e = 1) = (b = ''..'')"
        unfolding e_def using dot by (rule dot_dot)
      have idx1: "(length pre + length b - length e = length pre + length b - 1) = (length e = 1)"
      proof -
        have "0 < length e" using ne by simp
        with le show ?thesis by arith
      qed
      have idx2: "(length pre + length b - length e = length pre + 1) = (length b - length e = 1)"
        using le by arith
      have sd: "startDot F = Some (length pre + length b - length e)"
        and en: "endIdx F = Some (length pre + length b)"
        and sp: "startPart F = length pre"
        and pd: "preDotState F = (if CHR ''.'' \<notin> set (tl b) then 0 else if hd b = CHR ''.'' then 1 else - 1)"
        using dot by (simp_all add: Fc e_def)
      have len: "length pre + length b - (length pre + length b - length e) = length e"
        using le by simp
      have "extname ?p =
        (if preDotState F = 0 \<or>
            (preDotState F = 1 \<and>
             length pre + length b - length e = length pre + length b - 1 \<and>
             length pre + length b - length e = length pre + 1)
         then [] else take (length e) (drop (length pre + length b - length e) ?p))"
        unfolding extname_def run Let_def sd en sp by (simp only: option.case prod.case len)
      also have "\<dots> = (if e = b \<or> b = ''..'' then [] else e)"
        unfolding idx1 idx2 slice pd using whole dd by auto
      finally show ?thesis by (simp add: e_def)
    qed
  qed
qed

text \<open>The loop computes the extension as said above.\<close>

lemma extname_closed_form: "extname p = extension_of p"
proof -
  from path_parts[of p] obtain pre where
    "\<exists>b sl. p = pre @ b @ sl \<and> (\<forall>c\<in>set sl. c = CHR ''/'') \<and>
     CHR ''/'' \<notin> set b \<and> (pre = [] \<or> last pre = CHR ''/'') \<and> (b = [] \<longrightarrow> pre = []) \<and>
     last_component p = b" ..
  then obtain b where
    "\<exists>sl. p = pre @ b @ sl \<and> (\<forall>c\<in>set sl. c = CHR ''/'') \<and>
     CHR ''/'' \<notin> set b \<and> (pre = [] \<or> last pre = CHR ''/'') \<and> (b = [] \<longrightarrow> pre = []) \<and>
     last_component p = b" ..
  then obtain sl where parts:
    "p = pre @ b @ sl \<and> (\<forall>c\<in>set sl. c = CHR ''/'') \<and>
     CHR ''/'' \<notin> set b \<and> (pre = [] \<or> last pre = CHR ''/'') \<and> (b = [] \<longrightarrow> pre = []) \<and>
     last_component p = b" ..
  note p = parts[THEN conjunct1]
    and sl = parts[THEN conjunct2, THEN conjunct1]
    and nb = parts[THEN conjunct2, THEN conjunct2, THEN conjunct1]
    and pre = parts[THEN conjunct2, THEN conjunct2, THEN conjunct2, THEN conjunct1]
    and bpre = parts[THEN conjunct2, THEN conjunct2, THEN conjunct2, THEN conjunct2, THEN conjunct1]
    and lc = parts[THEN conjunct2, THEN conjunct2, THEN conjunct2, THEN conjunct2, THEN conjunct2]
  have "extname (pre @ b @ sl) = (if from_last_dot b = b \<or> b = ''..'' then [] else from_last_dot b)"
    using sl nb pre bpre by (rule extname_parts)
  then have "extname p = (if from_last_dot b = b \<or> b = ''..'' then [] else from_last_dot b)"
    unfolding p[symmetric] .
  then show ?thesis by (simp add: extension_of_def Let_def lc)
qed

section \<open>Slashes at the start of a string\<close>

lemma startsWith_slash: "startsWith s ''/'' = (s \<noteq> [] \<and> hd s = CHR ''/'')"
  by (cases s) (auto simp: startsWith_def)

lemma startsWith_double: "startsWith s ''//'' = (\<exists>r. s = CHR ''/'' # CHR ''/'' # r)"
proof (cases s)
  case Nil
  then show ?thesis by (simp add: startsWith_def)
next
  case (Cons a t)
  then show ?thesis by (cases t) (auto simp: startsWith_def)
qed

section \<open>The size check\<close>

lemma exceedsMaximum_Some:
  "parseInt10 (maximumFileSize env) = Some M \<Longrightarrow> exceedsMaximum env (Some L) = (int L > M * 1024)"
  by (simp add: exceedsMaximum_def)

lemma snd_fileTooBig:
  "snd (fileTooBig env :: 'a outcome) = [WinstonError (''error:file-too-big, '' @ maximumFileSize env)]"
  by (simp add: fileTooBig_def)

text \<open>
  Past the size check, \<^verbatim>\<open>uploadFile\<close> either stops before any effect or starts by
  reading the file.
\<close>

lemma uploadFile_past_size:
  assumes "data_file d = Some f" and "present (file_path f) = Some p"
    and "\<not> exceedsMaximum env (file_size f)"
  shows "snd (uploadFile env st d) = [] \<or> (\<exists>evs. snd (uploadFile env st d) = ReadFile p # evs)"
  using assms
  by (auto simp: uploadFile_def Let_def split: sum.splits option.splits prod.splits)

lemma uploadImage_past_size:
  assumes "data_image d = Some img" and "\<not> exceedsMaximum env (image_size img)"
  shows "snd (uploadImage env st d) = [] \<or> (\<exists>p evs. snd (uploadImage env st d) = ReadFile p # evs)"
  using assms
  by (auto simp: uploadImage_def Let_def split: sum.splits option.splits prod.splits)

text \<open>
  Claim C1. For every byte length \<open>L\<close> and every configured limit that reads as the
  number \<open>M\<close> (in KB), the size check of \<^verbatim>\<open>uploadFile\<close> (on a file that has a
  path) and of \<^verbatim>\<open>uploadImage\<close> (on an image that is present) fails with the
  file-too-big error, after logging it, if and only if \<open>L > M * 1024\<close>. Otherwise the
  call goes on: it stops without any effect at a later check, or it reads the file.
\<close>

theorem size_check_iff:
  assumes M: "parseInt10 (maximumFileSize env) = Some M"
    and f: "data_file fd = Some f" and p: "present (file_path f) = Some p"
    and fL: "file_size f = Some L"
    and img: "data_image imd = Some img" and iL: "image_size img = Some L'"
  shows "((uploadFile env st fd = fileTooBig env) = (int L > M * 1024)) \<and>
         ((uploadImage env st imd = fileTooBig env) = (int L' > M * 1024)) \<and>
         (\<not> int L > M * 1024 \<longrightarrow>
            snd (uploadFile env st fd) = [] \<or>
            (\<exists>evs. snd (uploadFile env st fd) = ReadFile p # evs)) \<and>
         (\<not> int L' > M * 1024 \<longrightarrow>
            snd (uploadImage env st imd) = [] \<or>
            (\<exists>q evs. snd (uploadImage env st imd) = ReadFile q # evs))"
proof (intro conjI impI)
  have exF: "exceedsMaximum env (file_size f) = (int L > M * 1024)"
    using M fL by (simp add: exceedsMaximum_Some)
  have exI: "exceedsMaximum env (image_size img) = (int L' > M * 1024)"
    using M iL by (simp add: exceedsMaximum_Some)
  show "(uploadFile env st fd = fileTooBig env) = (int L > M * 1024)"
  proof (cases "exceedsMaximum env (file_size f)")
    case True
    then show ?thesis using f p exF by (simp add: uploadFile_def)
  next
    case False
    from uploadFile_past_size[OF f p False, of st]
    have "snd (uploadFile env st fd) \<noteq> snd (fileTooBig env :: upload_result outcome)"
      by (auto simp: snd_fileTooBig)
    then have "uploadFile env st fd \<noteq> fileTooBig env" by auto
    then show ?thesis using False exF by simp
  qed
  show "(uploadImage env st imd = fileTooBig env) = (int L' > M * 1024)"
  proof (cases "exceedsMaximum env (image_size img)")
    case True
    then show ?thesis using img exI by (simp add: uploadImage_def)
  next
    case False
    from uploadImage_past_size[OF img False, of st]
    have "snd (uploadImage env st imd) \<noteq> snd (fileTooBig env :: upload_result outcome)"
      by (auto simp: snd_fileTooBig)
    then have "uploadImage env st imd \<noteq> fileTooBig env" by auto
    then show ?thesis using False exI by simp
  qed
  {
    assume "\<not> int L > M * 1024"
    then have "\<not> exceedsMaximum env (file_size f)" using exF by simp
    from uploadFile_past_size[OF f p this]
    show "snd (uploadFile env st fd) = [] \<or> (\<exists>evs. snd (uploadFile env st fd) = ReadFile p # evs)" .
  }
  {
    assume "\<not> int L' > M * 1024"
    then have "\<not> exceedsMaximum env (image_size img)" using exI by simp
    from uploadImage_past_size[OF img this]
    show "snd (uploadImage env st imd) = [] \<or>
          (\<exists>q evs. snd (uploadImage env st imd) = ReadFile q # evs)" .
  }
qed

theorem size_check_iff_witness:
  "uploadFile sample_env sample_settings \<lparr>data_file = Some big_file, file_folder = None\<rparr>
     = fileTooBig sample_env \<and>
   uploadImage sample_env sample_settings \<lparr>data_image = Some small_image, image_folder = None\<rparr>
     \<noteq> fileTooBig sample_env"
proof -
  have M: "parseInt10 (maximumFileSize sample_env) = Some 2048"
    by code_simp
  have f: "data_file \<lparr>data_file = Some big_file, file_folder = None\<rparr> = Some big_file"
    by simp
  have p: "present (file_path big_file) = Some ''/tmp/video.png''"
    by (simp add: big_file_def present_def)
  have fL: "file_size big_file = Some 3000000"
    by (simp add: big_file_def)
  have img: "data_image \<lparr>data_image = Some small_image, image_folder = None\<rparr> = Some small_image"
    by simp
  have iL: "image_size small_image = Some 500"
    by (simp add: small_image_def)
  from size_check_iff[OF M f p fL img iL, of sample_settings]
  show ?thesis by simp
qed

section \<open>The extension check\<close>

text \<open>
  Claim C2, as stated, fails: the extension is not the text from the last dot of the
  path. For the dotfile \<open>/tmp/.png\<close> and the allow-list \<open>.png\<close> the last dot and the
  text after it are \<open>.png\<close>, a member of the list, and yet the check fails:
  \<^verbatim>\<open>path.extname\<close> gives a dotfile no extension.
\<close>

theorem isExtensionAllowed_counterexample:
  "from_last_dot ''/tmp/.png'' = ''.png'' \<and>
   passes_on_last_dot sample_env ''/tmp/.png'' [''.png''] \<and>
   isExtensionAllowed sample_env (Some ''/tmp/.png'') [''.png''] = Inr False"
  by code_simp

text \<open>
  Claim C2, amended. For every path \<open>p\<close> and allow-list \<open>A\<close>, \<^verbatim>\<open>isExtensionAllowed\<close>
  returns true if and only if \<open>A\<close> is empty, or the lower-cased extension of \<open>p\<close> is not
  empty, is not the bare dot and is a member of \<open>A\<close>; in every other case it returns
  false. The extension of \<open>p\<close> is the last dot of the last path component with the text
  after it, and it is empty when that component has no dot, when its only dot is its
  first character, or when the component is \<open>..\<close>.
\<close>

theorem isExtensionAllowed_iff:
  "isExtensionAllowed env (Some p) A =
     Inr (A = [] \<or>
          (toLowerCase env (extension_of p) \<noteq> [] \<and> toLowerCase env (extension_of p) \<noteq> ''.'' \<and>
           toLowerCase env (extension_of p) \<in> set A))"
  by (auto simp: isExtensionAllowed_def path_extname_def Let_def extname_closed_form)

theorem isExtensionAllowed_iff_witness:
  "isExtensionAllowed sample_env (Some ''/tmp/Photo.PNG'') [''.png'', ''.jpg''] = Inr True \<and>
   isExtensionAllowed sample_env (Some ''notes.'') [''.png'', ''.''] = Inr False \<and>
   isExtensionAllowed sample_env (Some ''README'') [''.png''] = Inr False \<and>
   isExtensionAllowed sample_env (Some ''v1.2/.png'') [''.png''] = Inr False \<and>
   isExtensionAllowed sample_env (Some ''README'') [] = Inr True"
proof -
  have e1: "toLowerCase sample_env (extension_of ''/tmp/Photo.PNG'') = ''.png''" by code_simp
  have e2: "toLowerCase sample_env (extension_of ''notes.'') = ''.''" by code_simp
  have e3: "toLowerCase sample_env (extension_of ''README'') = []" by code_simp
  have e4: "toLowerCase sample_env (extension_of ''v1.2/.png'') = []" by code_simp
  show ?thesis
    using isExtensionAllowed_iff[of sample_env "''/tmp/Photo.PNG''" "[''.png'', ''.jpg'']"]
      isExtensionAllowed_iff[of sample_env "''notes.''" "[''.png'', ''.'']"]
      isExtensionAllowed_iff[of sample_env "''README''" "[''.png'']"]
      isExtensionAllowed_iff[of sample_env "''v1.2/.png''" "[''.png'']"]
      isExtensionAllowed_iff[of sample_env "''README''" "[]"]
    by (simp add: e1 e2 e3 e4)
qed

section \<open>The object key\<close>

text \<open>
  The key of every object that \<^verbatim>\<open>uploadToS3\<close> puts is the one built on lines 177--185,
  and it ends with the extension of the file name.
\<close>

lemma uploadToS3_sent_keys:
  "sent_keys (snd (uploadToS3 env st (Some fname) folder buffer)) = [s3Key st folder (uuid env) fname]"
proof (cases "s3_send env (constructS3 st)
        \<lparr>Bucket = bucket st, Key = s3Key st folder (uuid env) fname, Body = buffer,
         ContentLength = length buffer, ContentType = mime_getType env fname\<rparr>")
  case None
  then show ?thesis by (simp add: uploadToS3_def Let_def)
next
  case (Some err)
  then show ?thesis by (cases err) (simp_all add: uploadToS3_def Let_def)
qed

lemma object_key_extension:
  "\<exists>front. s3Key st folder token filename = front @ extname filename"
  by (simp add: s3Key_def Let_def split: option.splits)

text \<open>
  An upload path that ends in a slash gets no second one, and after line 177 the prefix
  starts with no slash unless the upload path started with two.
\<close>

lemma s3Path_keeps_slash:
  "uploadPath st \<noteq> [] \<Longrightarrow> last (uploadPath st) = CHR ''/'' \<Longrightarrow> s3Path st = uploadPath st"
  by (simp add: s3Path_def)

lemma prefix_no_leading_slash:
  assumes "\<not> startsWith (uploadPath st) ''//''"
  shows "\<not> startsWith (stripLeadingSlash (s3Path st)) ''/''"
proof (cases "uploadPath st")
  case Nil
  then show ?thesis by (simp add: s3Path_def stripLeadingSlash_def startsWith_def)
next
  case (Cons a t)
  show ?thesis
  proof (cases t)
    case Nil
    with Cons show ?thesis by (simp add: s3Path_def stripLeadingSlash_def startsWith_def)
  next
    case inner: (Cons b r)
    with Cons assms have "\<not> (a = CHR ''/'' \<and> b = CHR ''/'')"
      by (simp add: startsWith_def)
    with Cons inner show ?thesis
      by (auto simp: s3Path_def stripLeadingSlash_def startsWith_def)
  qed
qed

text \<open>
  Claim C3 at the upload path \<open>//forum\<close>. Line 177 removes one slash from the start of
  the prefix, and its comment says that the key should not start with a slash; of two
  slashes one is left, and the key of the object that is put starts with it.
\<close>

theorem object_key_leading_slash:
  "sent_keys (snd (uploadToS3 sample_env (sample_settings\<lparr>uploadPath := ''//forum''\<rparr>)
      (Some ''photo.png'') None [1, 2, 3]))
     = [''/forum/123e4567-e89b-42d3-a456-426614174000.png''] \<and>
   startsWith ''/forum/123e4567-e89b-42d3-a456-426614174000.png'' ''/''"
  by code_simp

section \<open>The public URL\<close>

lemma uploadToS3_success:
  assumes "uploadToS3 env st (Some filename) folder buffer = (Inr r, evs)"
  shows "r = \<lparr>result_name = filename,
               result_url = urlHost st (bucket st) @ ''/'' @ s3Key st folder (uuid env) filename\<rparr>"
  using assms
  by (auto simp: uploadToS3_def Let_def split: option.splits prod.splits)

text \<open>
  Without a host override the URL is \<open>https://\<close>, the bucket, a slash and the key.
\<close>

lemma public_url_default:
  assumes "uploadToS3 env st (Some filename) folder buffer = (Inr r, evs)" and "host st = []"
  shows "result_url r = ''https://'' @ bucket st @ ''/'' @ s3Key st folder (uuid env) filename"
  using uploadToS3_success[OF assms(1)] assms(2) by (simp add: urlHost_def)

text \<open>
  Claim C4 at the host overrides \<open>httpbin.org\<close> and \<open>ftp://files.example.com\<close>. Line 199
  means to give an override without a scheme the scheme \<open>http://\<close>, and tests for it
  whether the override starts with the four characters \<open>http\<close>. The first override has
  no scheme and starts with them: the URL returned has no scheme. The second has a scheme
  and does not start with them: the URL returned has two.
\<close>

theorem public_url_override:
  "\<not> has_scheme ''httpbin.org'' \<and>
   fst (uploadToS3 sample_env (sample_settings\<lparr>host := ''httpbin.org''\<rparr>)
          (Some ''photo.png'') None [1, 2, 3]) =
     Inr \<lparr>result_name = ''photo.png'',
          result_url = ''httpbin.org/forum/123e4567-e89b-42d3-a456-426614174000.png''\<rparr> \<and>
   has_scheme ''ftp://files.example.com'' \<and>
   fst (uploadToS3 sample_env (sample_settings\<lparr>host := ''ftp://files.example.com''\<rparr>)
          (Some ''photo.png'') None [1, 2, 3]) =
     Inr \<lparr>result_name = ''photo.png'',
          result_url = ''http://ftp://files.example.com/forum/123e4567-e89b-42d3-a456-426614174000.png''\<rparr>"
  by code_simp

section \<open>Reloading the settings\<close>

text \<open>
  Claim C5. For every state of the settings and every reload, \<^verbatim>\<open>reloadSettings\<close>
  changes nothing when its argument is tagged for another plugin. Otherwise each of the
  six fields takes the incoming value (the one the host's settings store returns) when
  that value is present and not empty, and keeps its prior value when it is not. Running
  the same reload a second time changes nothing more.
\<close>

theorem reloadSettings_fields:
  "(forOtherPlugin data \<longrightarrow> reloadSettings env data st = st) \<and>
   (\<not> forOtherPlugin data \<longrightarrow>
      accessKeyId (reloadSettings env data st) =
        (case present (stored_accessKeyId (settings_get env)) of Some v \<Rightarrow> v | None \<Rightarrow> accessKeyId st) \<and>
      secretAccessKey (reloadSettings env data st) =
        (case present (stored_secretAccessKey (settings_get env)) of Some v \<Rightarrow> v | None \<Rightarrow> secretAccessKey st) \<and>
      region (reloadSettings env data st) =
        (case present (stored_region (settings_get env)) of Some v \<Rightarrow> v | None \<Rightarrow> region st) \<and>
      bucket (reloadSettings env data st) =
        (case present (stored_bucket (settings_get env)) of Some v \<Rightarrow> v | None \<Rightarrow> bucket st) \<and>
      uploadPath (reloadSettings env data st) =
        (case present (stored_uploadPath (settings_get env)) of Some v \<Rightarrow> v | None \<Rightarrow> uploadPath st) \<and>
      host (reloadSettings env data st) =
        (case present (stored_host (settings_get env)) of Some v \<Rightarrow> v | None \<Rightarrow> host st)) \<and>
   reloadSettings env data (reloadSettings env data st) = reloadSettings env data st"
  by (simp add: reloadSettings_def Let_def split: option.splits)

lemma present_None: "present None = None" and present_empty: "present (Some []) = None"
  and present_value: "s \<noteq> [] \<Longrightarrow> present (Some s) = Some s"
  by (simp_all add: present_def)

theorem reloadSettings_fields_witness:
  "\<not> forOtherPlugin (Some \<lparr>data_plugin = Some ''aws-s3-upload''\<rparr>) \<and>
   reloadSettings sample_env (Some \<lparr>data_plugin = Some ''aws-s3-upload''\<rparr>) sample_settings =
     sample_settings\<lparr>region := ''us-east-1''\<rparr> \<and>
   forOtherPlugin (Some \<lparr>data_plugin = Some ''markdown''\<rparr>) \<and>
   reloadSettings sample_env (Some \<lparr>data_plugin = Some ''markdown''\<rparr>) sample_settings = sample_settings"
proof -
  have a: "\<not> forOtherPlugin (Some \<lparr>data_plugin = Some ''aws-s3-upload''\<rparr>)"
    and b: "forOtherPlugin (Some \<lparr>data_plugin = Some ''markdown''\<rparr>)"
    by (simp_all add: forOtherPlugin_def)
  have stored: "settings_get sample_env =
        \<lparr>stored_accessKeyId = None, stored_secretAccessKey = None,
         stored_region = Some ''us-east-1'', stored_bucket = Some [],
         stored_uploadPath = None, stored_host = None\<rparr>"
    by (simp add: sample_env_def)
  from reloadSettings_fields[of "Some \<lparr>data_plugin = Some ''aws-s3-upload''\<rparr>" sample_env sample_settings] a
  have "reloadSettings sample_env (Some \<lparr>data_plugin = Some ''aws-s3-upload''\<rparr>) sample_settings =
     sample_settings\<lparr>region := ''us-east-1''\<rparr>"
    by (intro settings.equality) (simp_all add: stored present_None present_empty present_value)
  moreover from reloadSettings_fields[of "Some \<lparr>data_plugin = Some ''markdown''\<rparr>" sample_env sample_settings] b
  have "reloadSettings sample_env (Some \<lparr>data_plugin = Some ''markdown''\<rparr>) sample_settings = sample_settings"
    by simp
  ultimately show ?thesis using a b by simp
qed

section \<open>Missing input\<close>

text \<open>
  \<^verbatim>\<open>uploadFile\<close> refuses a call without a file, or with a file without a path, with
  the errors \<open>invalid file\<close> and \<open>invalid file path\<close>, before any effect.
\<close>

lemma uploadFile_invalid_input:
  "uploadFile env st \<lparr>data_file = None, file_folder = fo\<rparr> = (Inl (mkError ''invalid file''), [])"
  "present (file_path f) = None \<Longrightarrow>
     uploadFile env st \<lparr>data_file = Some f, file_folder = fo\<rparr> = (Inl (mkError ''invalid file path''), [])"
  by (simp_all add: uploadFile_def)

text \<open>
  Claim C6 at a call of \<^verbatim>\<open>uploadImage\<close> without an image. The code logs
  \<open>invalid image\<close> and then calls \<^verbatim>\<open>callback\<close>, which is bound nowhere: the call
  throws a ReferenceError, and the error \<open>invalid image\<close> that the call was meant to
  report is not even built. No file is read and nothing is sent.
\<close>

theorem uploadImage_missing_image:
  "uploadImage env st \<lparr>data_image = None, image_folder = fo\<rparr> =
     (Inl (JsError ''ReferenceError'' ''callback is not defined''), [WinstonError ''invalid image''])"
  by (simp add: uploadImage_def ReferenceError_def)

section \<open>The remote fetch\<close>

text \<open>
  Claim C7 at a URL whose server would answer 404. \<^verbatim>\<open>downloadAndResizeImage\<close>
  throws a ReferenceError for \<^verbatim>\<open>https\<close>; it makes no request and reads no status.
\<close>

theorem fetch_missing_https:
  "downloadAndResizeImage ''https://example.com/missing.png'' 128 =
     (Inl (JsError ''ReferenceError'' ''https is not defined''), [])"
  by (simp add: downloadAndResizeImage_def ReferenceError_def)

section \<open>Errors of the storage service\<close>

text \<open>
  Claim C8 at a put that fails with \<^verbatim>\<open>new Error('boom')\<close>. \<^verbatim>\<open>createError\<close> puts
  the plugin identifier before the message and logs it, and \<^verbatim>\<open>uploadToS3\<close> then
  throws \<^verbatim>\<open>new Error(...)\<close> of that Error object: the message of what the caller
  catches is the string form of an Error, which starts with the name of the error, not
  with the plugin identifier.
\<close>

theorem storage_error_message:
  "uploadToS3 (sample_env\<lparr>s3_send := (\<lambda>c ps. Some (JsError ''Error'' ''boom''))\<rparr>) sample_settings
       (Some ''photo.png'') None [1, 2, 3] =
     (Inl (JsError ''Error'' ''Error: nodebb-plugin-aws-s3-upload :: boom''),
      [S3Send (constructS3 sample_settings)
         \<lparr>Bucket = ''assets'', Key = ''forum/123e4567-e89b-42d3-a456-426614174000.png'',
          Body = [1, 2, 3], ContentLength = 3, ContentType = Some ''image/png''\<rparr>,
       WinstonError ''nodebb-plugin-aws-s3-upload :: boom''])"
  by code_simp

text \<open>
  The same for every Error object that the put throws; the logged line is the prefixed
  message. The errors of the other steps reach the caller as they were thrown.
\<close>

lemma storage_error_wrapped:
  assumes "s3_send env (constructS3 st)
        \<lparr>Bucket = bucket st, Key = s3Key st folder (uuid env) fname, Body = buffer,
         ContentLength = length buffer, ContentType = mime_getType env fname\<rparr> = Some (JsError n m)"
  shows "fst (uploadToS3 env st (Some fname) folder buffer) =
           Inl (mkError (if n = [] then pluginId @ '' :: '' @ m
                         else n @ '': '' @ pluginId @ '' :: '' @ m))"
    and "last (snd (uploadToS3 env st (Some fname) folder buffer)) =
           WinstonError (pluginId @ '' :: '' @ m)"
  using assms by (simp_all add: uploadToS3_def Let_def pluginId_def)

lemma readFile_error_unwrapped:
  assumes "data_file d = Some f" and "present (file_path f) = Some p"
    and "\<not> exceedsMaximum env (file_size f)"
    and "isExtensionAllowed env (Some p) (allowedExtensions env) = Inr True"
    and "readFile env p = Inl e"
  shows "uploadFile env st d = (Inl e, [ReadFile p])"
  using assms by (simp add: uploadFile_def)

lemma extension_error_unwrapped:
  assumes "data_file d = Some f" and "present (file_path f) = Some p"
    and "\<not> exceedsMaximum env (file_size f)"
    and "isExtensionAllowed env (Some p) (allowedExtensions env) = Inr False"
  shows "uploadFile env st d =
           (Inl (mkError (''[[error:invalid-file-type, '' @ join ''&#44; '' (allowedExtensions env) @ '']]'')), [])"
  using assms by (simp add: uploadFile_def invalidFileType_def)

section \<open>Images from a local file without an original name\<close>

text \<open>
  Claim C9, as stated, fails: the extension check is not invoked on an undefined name,
  because the statement before it, the assignment to the undeclared \<^verbatim>\<open>name\<close> on line
  118, already throws in strict mode. The check on \<^verbatim>\<open>undefined\<close> would throw the
  TypeError of \<^verbatim>\<open>path.extname\<close>; the call throws a ReferenceError instead.
\<close>

theorem uploadImage_local_unnamed_counterexample:
  "isExtensionAllowed sample_env None (allowedExtensions sample_env) = Inl extname_arg_error \<and>
   fst (uploadImage sample_env sample_settings \<lparr>data_image = Some unnamed_image, image_folder = None\<rparr>)
     = Inl (JsError ''ReferenceError'' ''name is not defined'') \<and>
   fst (uploadImage sample_env sample_settings \<lparr>data_image = Some unnamed_image, image_folder = None\<rparr>)
     \<noteq> Inl extname_arg_error"
  by code_simp

text \<open>
  Claim C9, amended. For every call of \<^verbatim>\<open>uploadImage\<close> whose image is a local file (no
  url) without an original name, the call fails with a thrown error and neither reads a
  file nor calls the storage service. When the image passes the size check and has a
  path, the error is the ReferenceError of the assignment to \<^verbatim>\<open>name\<close>, thrown before
  the extension check is invoked, whatever the allow-list is.
\<close>

theorem uploadImage_local_unnamed:
  assumes img: "data_image d = Some img" and url: "\<not> truthy (image_url img)"
    and orig: "\<not> truthy (image_originalname img)"
  shows "(\<exists>e. fst (uploadImage env st d) = Inl e) \<and>
         \<not> list_ex is_io (snd (uploadImage env st d)) \<and>
         (\<not> exceedsMaximum env (image_size img) \<and> present (image_path img) \<noteq> None
            \<longrightarrow> uploadImage env st d = (Inl (ReferenceError ''name''), []))"
  using img url orig
  by (auto simp: uploadImage_def Let_def fileTooBig_def split: sum.splits option.splits)

theorem uploadImage_local_unnamed_witness:
  "\<not> truthy (image_url unnamed_image) \<and> \<not> truthy (image_originalname unnamed_image) \<and>
   uploadImage (sample_env\<lparr>allowedExtensions := []\<rparr>) sample_settings
       \<lparr>data_image = Some unnamed_image, image_folder = None\<rparr> =
     (Inl (JsError ''ReferenceError'' ''name is not defined''), [])"
proof -
  have img: "data_image \<lparr>data_image = Some unnamed_image, image_folder = None\<rparr> = Some unnamed_image"
    by simp
  have url: "\<not> truthy (image_url unnamed_image)" and orig: "\<not> truthy (image_originalname unnamed_image)"
    by (simp_all add: unnamed_image_def truthy_def)
  have sz: "\<not> exceedsMaximum (sample_env\<lparr>allowedExtensions := []\<rparr>) (image_size unnamed_image)"
    by code_simp
  have pth: "present (image_path unnamed_image) \<noteq> None"
    by (simp add: unnamed_image_def present_def)
  from uploadImage_local_unnamed[OF img url orig, of "sample_env\<lparr>allowedExtensions := []\<rparr>" sample_settings]
    sz pth url orig
  show ?thesis by (simp add: ReferenceError_def)
qed

section \<open>Images from a remote URL\<close>

text \<open>
  Claim C10. For every call of \<^verbatim>\<open>uploadImage\<close> whose image has a url, the call fails
  with a thrown error and neither reads a file nor calls the storage service, so that no
  object is stored and no URL returned. When the image passes the size check and the
  extension check, the error is the ReferenceError of \<^verbatim>\<open>imageDimension\<close>, thrown
  before the fetch helper is entered and so before any request; the helper itself would
  throw the ReferenceError of \<^verbatim>\<open>https\<close>.
\<close>

theorem uploadImage_remote_url:
  assumes img: "data_image d = Some img" and url: "truthy (image_url img)"
  shows "(\<exists>e. fst (uploadImage env st d) = Inl e) \<and>
         \<not> list_ex is_io (snd (uploadImage env st d)) \<and>
         (\<not> exceedsMaximum env (image_size img) \<and>
          isExtensionAllowed env (image_url img) (allowedExtensions env) = Inr True
            \<longrightarrow> uploadImage env st d = (Inl (ReferenceError ''imageDimension''), [])) \<and>
         downloadAndResizeImage u n = (Inl (ReferenceError ''https''), [])"
  using img url
  by (auto simp: uploadImage_def Let_def fileTooBig_def downloadAndResizeImage_def
           split: sum.splits)

theorem uploadImage_remote_url_witness:
  "truthy (image_url remote_image) \<and>
   \<not> exceedsMaximum sample_env (image_size remote_image) \<and>
   isExtensionAllowed sample_env (image_url remote_image) (allowedExtensions sample_env) = Inr True \<and>
   uploadImage sample_env sample_settings \<lparr>data_image = Some remote_image, image_folder = None\<rparr> =
     (Inl (JsError ''ReferenceError'' ''imageDimension is not defined''), [])"
proof -
  have img: "data_image \<lparr>data_image = Some remote_image, image_folder = None\<rparr> = Some remote_image"
    by simp
  have url: "truthy (image_url remote_image)"
    by (simp add: remote_image_def truthy_def)
  have sz: "\<not> exceedsMaximum sample_env (image_size remote_image)"
    by code_simp
  have ext: "isExtensionAllowed sample_env (image_url remote_image) (allowedExtensions sample_env) = Inr True"
    by code_simp
  from uploadImage_remote_url[OF img url, of sample_env sample_settings] sz ext url
  show ?thesis by (simp add: ReferenceError_def)
qed

end
